theory Spec2Isabelle
  imports Main "HOL-Library.Word"
begin

unbundle bit_operations_syntax

section \<open>Buffers\<close>

type_synonym byte = "8 word"
type_synonym buffer = "byte list"

text \<open>
  \<^verbatim>\<open>Buffer.prototype.slice(start, end)\<close>: a negative index counts from the end of the
  buffer, every index is clamped to the buffer, and an empty buffer results when the start
  is not before the end.
\<close>

definition slice :: "buffer \<Rightarrow> int \<Rightarrow> int \<Rightarrow> buffer" where
  "slice buf start fin =
     (let n = int (length buf);
          s = (if start < 0 then max (n + start) 0 else min start n);
          e = (if fin < 0 then max (n + fin) 0 else min fin n)
      in if s < e then take (nat (e - s)) (drop (nat s) buf) else [])"

text \<open>
  \<^verbatim>\<open>Buffer.prototype.toString()\<close> with its default encoding: the bytes are decoded as
  UTF-8, and every maximal ill-formed part becomes the replacement character U+FFFD.
  The string is given as its list of code points.
\<close>

definition continuation :: "byte \<Rightarrow> bool" where
  "continuation b = (0x80 \<le> b \<and> b \<le> 0xBF)"

definition second_of_3 :: "byte \<Rightarrow> byte \<Rightarrow> bool" where
  "second_of_3 b c =
     (if b = 0xE0 then 0xA0 \<le> c \<and> c \<le> 0xBF
      else if b = 0xED then 0x80 \<le> c \<and> c \<le> 0x9F
      else continuation c)"

definition second_of_4 :: "byte \<Rightarrow> byte \<Rightarrow> bool" where
  "second_of_4 b c =
     (if b = 0xF0 then 0x90 \<le> c \<and> c \<le> 0xBF
      else if b = 0xF4 then 0x80 \<le> c \<and> c \<le> 0x8F
      else continuation c)"

definition low6 :: "byte \<Rightarrow> nat" where
  "low6 b = unat (b AND 0x3F)"

fun toString :: "buffer \<Rightarrow> nat list" where
  "toString [] = []"
| "toString (b # bs) =
     (if b < 0x80 then unat b # toString bs
      else if 0xC2 \<le> b \<and> b \<le> 0xDF then
        (case bs of
           [] \<Rightarrow> [0xFFFD]
         | c # cs \<Rightarrow>
             if continuation c then (unat (b AND 0x1F) * 64 + low6 c) # toString cs
             else 0xFFFD # toString bs)
      else if 0xE0 \<le> b \<and> b \<le> 0xEF then
        (case bs of
           [] \<Rightarrow> [0xFFFD]
         | c # cs \<Rightarrow>
             if second_of_3 b c then
               (case cs of
                  [] \<Rightarrow> [0xFFFD]
                | d # ds \<Rightarrow>
                    if continuation d
                    then (unat (b AND 0x0F) * 4096 + low6 c * 64 + low6 d) # toString ds
                    else 0xFFFD # toString cs)
             else 0xFFFD # toString bs)
      else if 0xF0 \<le> b \<and> b \<le> 0xF4 then
        (case bs of
           [] \<Rightarrow> [0xFFFD]
         | c # cs \<Rightarrow>
             if second_of_4 b c then
               (case cs of
                  [] \<Rightarrow> [0xFFFD]
                | d # ds \<Rightarrow>
                    if continuation d then
                      (case ds of
                         [] \<Rightarrow> [0xFFFD]
                       | e # es \<Rightarrow>
                           if continuation e
                           then (unat (b AND 0x07) * 262144 + low6 c * 4096
                                   + low6 d * 64 + low6 e) # toString es
                           else 0xFFFD # toString ds)
                    else 0xFFFD # toString cs)
             else 0xFFFD # toString bs)
      else 0xFFFD # toString bs)"

section \<open>Checksum\<close>

text \<open>
  Modelled from the spec: \<^verbatim>\<open>getCRC16\<close> of \<^verbatim>\<open>Utils.ts\<close>, which is not among the
  sources. Section 4.1: a 16-bit cyclic redundancy check "using a fixed polynomial,
  processed least-significant-bit first, starting from a zero register, no final
  inversion", the two bytes of the result being laid out little-endian (section 6).
  The polynomial is not given by the spec; it is the parameter \<open>poly\<close>.
\<close>

definition crc_bit :: "16 word \<Rightarrow> 16 word \<Rightarrow> 16 word" where
  "crc_bit poly c = (if c AND 1 \<noteq> 0 then drop_bit 1 c XOR poly else drop_bit 1 c)"

fun crc_bits :: "16 word \<Rightarrow> nat \<Rightarrow> 16 word \<Rightarrow> 16 word" where
  "crc_bits poly 0 c = c"
| "crc_bits poly (Suc j) c = crc_bits poly j (crc_bit poly c)"

definition crc_byte :: "16 word \<Rightarrow> 16 word \<Rightarrow> byte \<Rightarrow> 16 word" where
  "crc_byte poly c b = crc_bits poly 8 (c XOR ucast b)"

definition getCRC16 :: "16 word \<Rightarrow> buffer \<Rightarrow> buffer" where
  "getCRC16 poly buf =
     (let c = foldl (crc_byte poly) 0 buf in [ucast c, ucast (drop_bit 8 c)])"

text \<open>
  The check of the response handler (\<^verbatim>\<open>Device.ts\<close>, "Check CRC"):
  \<^verbatim>\<open>check.toString() !== (getCRC16(slice)).toString()\<close> is the failure condition, with
  \<^verbatim>\<open>check = response.slice(ln-2, ln)\<close> and \<^verbatim>\<open>slice = response.slice(0, ln-2)\<close>.
\<close>

definition crc_ok :: "16 word \<Rightarrow> buffer \<Rightarrow> bool" where
  "crc_ok poly resp =
     (let ln = int (length resp);
          check = slice resp (ln - 2) ln;
          body = slice resp 0 (ln - 2)
      in toString check = toString (getCRC16 poly body))"

section \<open>Commands, tasks and exceptions\<close>

text \<open>
  The bytes built by \<^verbatim>\<open>(new Commands.Ack()).request()\<close>,
  \<^verbatim>\<open>(new Commands.Nak()).request()\<close> and \<^verbatim>\<open>(new Commands.Poll()).request()\<close> are
  kept symbolic: the command classes are not among the sources.
\<close>

datatype packet = Packet buffer | Ack | Nak | Poll

datatype 'a outcome = Returns 'a | Throws

text \<open>
  A \<^verbatim>\<open>Command\<close> as \<^verbatim>\<open>Device.execute\<close> uses it: \<^verbatim>\<open>command.request(params)\<close> gives
  the bytes to send, \<^verbatim>\<open>command.response(data)\<close> parses a payload (\<open>None\<close> is
  \<^verbatim>\<open>null\<close>) and may throw.
\<close>

record command =
  request :: "buffer \<Rightarrow> packet"
  response :: "buffer option \<Rightarrow> buffer option outcome"

text \<open>
  \<^verbatim>\<open>new Exception(code, message)\<close>, with the two arguments that \<^verbatim>\<open>Device.ts\<close> passes:
  a number and a text.
\<close>

datatype exception = Exception (code: int) (message: string)

text \<open>
  The two closures that \<^verbatim>\<open>Device.ts\<close> passes to \<^verbatim>\<open>new Task\<close>: the one of
  \<^verbatim>\<open>onTick\<close> for the poll task, and the one of \<^verbatim>\<open>execute\<close>, which holds the
  promise (numbered) and the command.
\<close>

datatype callback = PollCallback | ExecuteCallback nat command

text \<open>
  Modelled from the spec: \<^verbatim>\<open>Task\<close> of \<^verbatim>\<open>Task.ts\<close>, which is not among the sources.
  Section 3: "outbound bytes (a fully framed, checksummed buffer), a completion sink
  \<open>(error | null, payload | null) -> void\<close> [...] and a timeout budget in milliseconds";
  \<^verbatim>\<open>task.done(error, data)\<close> invokes the sink with its two arguments.
\<close>

record task =
  data :: packet
  callback :: callback
  timeout :: int

section \<open>The device\<close>

text \<open>
  What the device does that can be observed: writes to the serial port, calls of
  \<^verbatim>\<open>task.done\<close> (with the number of the dispatch that took the task from the queue),
  and what the sink does in turn: \<^verbatim>\<open>reject\<close> and \<^verbatim>\<open>resolve\<close> of a promise, a call of
  \<^verbatim>\<open>onStatus\<close>, an exception thrown by the poll sink, an exception thrown by
  \<^verbatim>\<open>command.response\<close>.
\<close>

datatype action =
    SerialWrite packet
  | Done nat "exception option" "buffer option"
  | Reject nat exception
  | Resolve nat "buffer option"
  | StatusCall "buffer option"
  | Throw exception
  | ResponseThrows nat

text \<open>
  Callbacks waiting in the check phase of the event loop (\<^verbatim>\<open>setImmediate\<close>): the body
  of the constructor's \<^verbatim>\<open>tick\<close> listener, and the body of a \<^verbatim>\<open>timeoutHandler\<close>, which
  belongs to one dispatch and its task.
\<close>

datatype immediate = OnTickImmediate | TimeoutImmediate nat task

text \<open>
  The fields of \<^verbatim>\<open>Device\<close> that the engine reads and writes, the listeners registered
  on \<^verbatim>\<open>'tick'\<close> (after the constructor's own, which is always first) and on the parser's
  \<^verbatim>\<open>'data'\<close>, the \<^verbatim>\<open>timeoutCounter\<close> variable of every dispatch, the pending
  immediates, and the actions so far.
\<close>

record device =
  isOpen :: bool
  busy :: bool
  queue :: "task list"
  timerInterval :: bool
  promises :: nat
  dispatched :: nat
  timeoutCounter :: "nat \<Rightarrow> int"
  tickListeners :: "(nat \<times> task) list"
  dataListeners :: "(nat \<times> task) list"
  immediates :: "immediate list"
  trace :: "action list"

definition init :: device where
  "init = \<lparr>isOpen = False, busy = False, queue = [], timerInterval = False, promises = 0,
           dispatched = 0, timeoutCounter = (\<lambda>_. 0), tickListeners = [], dataListeners = [],
           immediates = [], trace = []\<rparr>"

definition timerMs :: int where
  "timerMs = 100"

definition log :: "action \<Rightarrow> device \<Rightarrow> device" where
  "log a s = s\<lparr>trace := trace s @ [a]\<rparr>"

definition removeListener :: "nat \<Rightarrow> (nat \<times> task) list \<Rightarrow> (nat \<times> task) list" where
  "removeListener n ls = filter (\<lambda>l. fst l \<noteq> n) ls"

text \<open>\<^verbatim>\<open>onStatus (status: Buffer) {}\<close>: the body is empty.\<close>

definition onStatus :: "buffer option \<Rightarrow> device \<Rightarrow> device" where
  "onStatus status s = s"

text \<open>
  \<^verbatim>\<open>task.done(error, data)\<close> for the task of dispatch \<open>n\<close>. The result says whether the
  sink threw. The poll sink: \<^verbatim>\<open>if (error) { throw error; } this.onStatus(data);\<close>. The
  sink of \<^verbatim>\<open>execute\<close>: \<^verbatim>\<open>if (error) { reject(error); } resolve(command.response(data));\<close>.
\<close>

definition task_done :: "nat \<Rightarrow> task \<Rightarrow> exception option \<Rightarrow> buffer option \<Rightarrow> device \<Rightarrow> device \<times> bool" where
  "task_done n t err d s =
     (let s1 = log (Done n err d) s in
      case callback t of
        PollCallback \<Rightarrow>
          (case err of
             Some e \<Rightarrow> (log (Throw e) s1, True)
           | None \<Rightarrow> (onStatus d (log (StatusCall d) s1), False))
      | ExecuteCallback p c \<Rightarrow>
          (let s2 = (case err of Some e \<Rightarrow> log (Reject p e) s1 | None \<Rightarrow> s1) in
           case response c d of
             Returns v \<Rightarrow> (log (Resolve p v) s2, False)
           | Throws \<Rightarrow> (log (ResponseThrows p) s2, True)))"

text \<open>The poll task that \<^verbatim>\<open>onTick\<close> builds when the queue is empty.\<close>

definition pollTask :: task where
  "pollTask = \<lparr>data = Poll, callback = PollCallback, timeout = 1000\<rparr>"

text \<open>
  \<^verbatim>\<open>onTick\<close>. \<^verbatim>\<open>queue.shift()\<close> gives \<^verbatim>\<open>undefined\<close> on an empty queue. The logger
  is \<^verbatim>\<open>null\<close> unless one is passed in, and its calls are left out.
\<close>

definition onTick :: "device \<Rightarrow> device" where
  "onTick s =
     (if \<not> busy s then
        (case queue s of
           t # rest \<Rightarrow>
             (let n = dispatched s;
                  s1 = s\<lparr>queue := rest, busy := True, dispatched := Suc n,
                         timeoutCounter := (timeoutCounter s)(n := 0),
                         dataListeners := dataListeners s @ [(n, t)]\<rparr>;
                  s2 = log (SerialWrite (data t)) s1
              in if timeout t \<noteq> 0
                 then s2\<lparr>tickListeners := tickListeners s2 @ [(n, t)]\<rparr>
                 else s2)
         | [] \<Rightarrow> s\<lparr>queue := [pollTask]\<rparr>)
      else s)"

text \<open>The body that \<^verbatim>\<open>timeoutHandler\<close> hands to \<^verbatim>\<open>setImmediate\<close>.\<close>

definition timeoutBody :: "nat \<Rightarrow> task \<Rightarrow> device \<Rightarrow> device" where
  "timeoutBody n t s =
     (let c = timeoutCounter s n + timerMs;
          s1 = s\<lparr>timeoutCounter := (timeoutCounter s)(n := c)\<rparr>
      in if c \<ge> timeout t
         then fst (task_done n t (Some (Exception 10 ''Request timeout.'')) None
                     (s1\<lparr>busy := False, tickListeners := removeListener n (tickListeners s1)\<rparr>))
         else s1)"

text \<open>
  The response handler is an \<^verbatim>\<open>async\<close> function: it runs up to its first \<^verbatim>\<open>await\<close>,
  and what follows an \<^verbatim>\<open>await\<close> runs as a microtask, after the other listeners of the
  same \<^verbatim>\<open>'data'\<close> event and before any other callback of the event loop. An exception
  thrown by the sink ends the handler (its promise is rejected).
\<close>

datatype after_ack = AfterAck nat task buffer

datatype microtask = AfterNak nat task buffer | Later after_ack

text \<open>The last two statements: \<^verbatim>\<open>this.busy = false; task.done(null, data);\<close>.\<close>

definition complete :: "nat \<Rightarrow> task \<Rightarrow> buffer \<Rightarrow> device \<Rightarrow> device" where
  "complete n t d s = fst (task_done n t None (Some d) (s\<lparr>busy := False\<rparr>))"

text \<open>From "Get data from packet" to the end of the handler.\<close>

definition responseType :: "nat \<Rightarrow> task \<Rightarrow> buffer \<Rightarrow> device \<Rightarrow> device \<times> microtask option" where
  "responseType n t resp s =
     (let ln = int (length resp);
          d = slice resp 3 (ln - 2)
      in if d = [0x00] then (complete n t d s, None)
         else if d = [0xFF] then
           (case task_done n t (Some (Exception 11 ''Wrong request data hash.'')) None
                   (s\<lparr>busy := False\<rparr>) of
              (s1, True) \<Rightarrow> (s1, None)
            | (s1, False) \<Rightarrow> (complete n t d s1, None))
         else (log (SerialWrite Ack) s, Some (Later (AfterAck n t resp))))"

text \<open>The handler up to its first \<^verbatim>\<open>await\<close>, or to its end.\<close>

definition handler :: "16 word \<Rightarrow> nat \<Rightarrow> task \<Rightarrow> buffer \<Rightarrow> device \<Rightarrow> device \<times> microtask option" where
  "handler poly n t resp s =
     (let s1 = s\<lparr>tickListeners := removeListener n (tickListeners s),
                 dataListeners := removeListener n (dataListeners s)\<rparr>
      in if \<not> crc_ok poly resp
         then (log (SerialWrite Nak) s1, Some (AfterNak n t resp))
         else responseType n t resp s1)"

fun resumeAck :: "after_ack \<Rightarrow> device \<Rightarrow> device" where
  "resumeAck (AfterAck n t resp) s =
     complete n t (slice resp 3 (int (length resp) - 2)) s"

fun resume :: "microtask \<Rightarrow> device \<Rightarrow> device \<times> after_ack option" where
  "resume (AfterNak n t resp) s =
     (case task_done n t (Some (Exception 11 ''Wrong response data hash.'')) None
             (s\<lparr>busy := False\<rparr>) of
        (s1, True) \<Rightarrow> (s1, None)
      | (s1, False) \<Rightarrow>
          (case responseType n t resp s1 of
             (s2, Some (Later a)) \<Rightarrow> (s2, Some a)
           | (s2, _) \<Rightarrow> (s2, None)))"
| "resume (Later a) s = (resumeAck a s, None)"

text \<open>
  The parser emits \<^verbatim>\<open>'data'\<close> with a complete frame: every handler registered with
  \<^verbatim>\<open>parser.once\<close> is called in the order of registration, then the microtasks run in
  the order in which they were queued.
\<close>

fun callHandlers :: "16 word \<Rightarrow> buffer \<Rightarrow> (nat \<times> task) list \<Rightarrow> device \<Rightarrow> device \<times> microtask list" where
  "callHandlers poly resp [] s = (s, [])"
| "callHandlers poly resp ((n, t) # ls) s =
     (case handler poly n t resp s of
        (s1, m) \<Rightarrow>
          (case callHandlers poly resp ls s1 of
             (s2, ms) \<Rightarrow> (s2, (case m of None \<Rightarrow> ms | Some x \<Rightarrow> x # ms))))"

fun runMicrotasks :: "microtask list \<Rightarrow> device \<Rightarrow> device \<times> after_ack list" where
  "runMicrotasks [] s = (s, [])"
| "runMicrotasks (m # ms) s =
     (case resume m s of
        (s1, a) \<Rightarrow>
          (case runMicrotasks ms s1 of
             (s2, as) \<Rightarrow> (s2, (case a of None \<Rightarrow> as | Some x \<Rightarrow> x # as))))"

definition parserData :: "16 word \<Rightarrow> buffer \<Rightarrow> device \<Rightarrow> device" where
  "parserData poly resp s =
     (case callHandlers poly resp (dataListeners s) s of
        (s1, ms) \<Rightarrow>
          (case runMicrotasks ms s1 of
             (s2, as) \<Rightarrow> fold resumeAck as s2))"

text \<open>
  The callback of \<^verbatim>\<open>setInterval\<close> emits \<^verbatim>\<open>'tick'\<close>: the constructor's listener and
  every registered \<^verbatim>\<open>timeoutHandler\<close> each queue one immediate.
\<close>

definition interval :: "device \<Rightarrow> device" where
  "interval s =
     (if timerInterval s
      then s\<lparr>immediates := immediates s @
                OnTickImmediate # map (\<lambda>l. TimeoutImmediate (fst l) (snd l)) (tickListeners s)\<rparr>
      else s)"

fun runImmediate :: "immediate \<Rightarrow> device \<Rightarrow> device" where
  "runImmediate OnTickImmediate s = onTick s"
| "runImmediate (TimeoutImmediate n t) s = timeoutBody n t s"

text \<open>The check phase of the event loop runs the pending immediates in order.\<close>

definition checkPhase :: "device \<Rightarrow> device" where
  "checkPhase s = fold runImmediate (immediates s) (s\<lparr>immediates := []\<rparr>)"

text \<open>\<^verbatim>\<open>execute\<close>: a new promise, a new task at the end of the queue.\<close>

definition execute :: "command \<Rightarrow> buffer \<Rightarrow> int \<Rightarrow> device \<Rightarrow> device" where
  "execute c params tmo s =
     s\<lparr>queue := queue s @
          [\<lparr>data = request c params, callback = ExecuteCallback (promises s) c, timeout = tmo\<rparr>],
       promises := Suc (promises s)\<rparr>"

text \<open>
  The serial port: \<^verbatim>\<open>open\<close> and \<^verbatim>\<open>close\<close> call the port only when its state differs,
  the port reports an error or changes state and emits \<^verbatim>\<open>'open'\<close> or \<^verbatim>\<open>'close'\<close>.
  \<^verbatim>\<open>onSerialPortOpen\<close> starts the operating timer, \<^verbatim>\<open>onSerialPortClose\<close> clears it.
\<close>

definition onSerialPortOpen :: "device \<Rightarrow> device" where
  "onSerialPortOpen s = s\<lparr>timerInterval := True\<rparr>"

definition onSerialPortClose :: "device \<Rightarrow> device" where
  "onSerialPortClose s = s\<lparr>timerInterval := False\<rparr>"

definition serial_open :: "exception option \<Rightarrow> device \<Rightarrow> device \<times> exception option" where
  "serial_open failure s =
     (if isOpen s then (s, None)
      else case failure of
             Some e \<Rightarrow> (s, Some e)
           | None \<Rightarrow> (onSerialPortOpen (s\<lparr>isOpen := True\<rparr>), None))"

definition serial_close :: "exception option \<Rightarrow> device \<Rightarrow> device \<times> exception option" where
  "serial_close failure s =
     (if isOpen s then
        (case failure of
           Some e \<Rightarrow> (s, Some e)
         | None \<Rightarrow> (onSerialPortClose (s\<lparr>isOpen := False\<rparr>), None))
      else (s, None))"

text \<open>\<^verbatim>\<open>disconnect\<close>: \<^verbatim>\<open>await this.close()\<close>, an error is thrown on.\<close>

definition disconnect :: "exception option \<Rightarrow> device \<Rightarrow> device \<times> exception option" where
  "disconnect failure s = serial_close failure s"

text \<open>What can happen to a device, and a run from a list of events.\<close>

datatype event =
    Open
  | Execute command buffer int
  | Interval
  | CheckPhase
  | ParserData buffer
  | Disconnect

fun step :: "16 word \<Rightarrow> event \<Rightarrow> device \<Rightarrow> device" where
  "step poly Open s = fst (serial_open None s)"
| "step poly (Execute c params tmo) s = execute c params tmo s"
| "step poly Interval s = interval s"
| "step poly CheckPhase s = checkPhase s"
| "step poly (ParserData frame) s = parserData poly frame s"
| "step poly Disconnect s = fst (disconnect None s)"

definition run :: "16 word \<Rightarrow> event list \<Rightarrow> device \<Rightarrow> device" where
  "run poly es s = fold (step poly) es s"

section \<open>Device status\<close>

text \<open>The string enum \<^verbatim>\<open>DeviceStatus\<close>: every member and its value.\<close>

datatype DeviceStatus =
    POWER_UP
  | POWER_UP_WITH_BILL_IN_VALIDATOR
  | POWER_UP_WITH_BILL_IN_STACKER
  | INITIALIZE
  | IDLING
  | ACCEPTING
  | STACKING
  | RETURNING
  | UNIT_DISABLED
  | HOLDING
  | DEVICE_BUSY
  | REJECTING_DUE_TO_INSERTION
  | REJECTING_DUE_TO_MAGNETIC
  | REJECTING_DUE_TO_REMAINED_BILL_IN_HEAD
  | REJECTING_DUE_TO_MULTIPLYING
  | REJECTING_DUE_TO_CONVEYING
  | REJECTING_DUE_TO_IDENTIFICATION
  | REJECTING_DUE_TO_VERIFICATION
  | REJECTING_DUE_TO_OPTIC
  | REJECTING_DUE_TO_INHIBIT
  | REJECTING_DUE_TO_CAPACITY
  | REJECTING_DUE_TO_OPERATION
  | REJECTING_DUE_TO_LENGTH
  | REJECTING_DUE_TO_UNRECOGNISED_BARCODE
  | REJECTING_DUE_TO_UV
  | REJECTING_DUE_TO_INCORRECT_NUMBER_OF_CHARACTERS_IN_BARCODE
  | REJECTING_DUE_TO_UNKNOWN_BARCODE_START_SEQUENCE
  | REJECTING_DUE_TO_UNKNOWN_BARCODE_STOP_SEQUENCE
  | DROP_CASSETTE_FULL
  | DROP_CASSETTE_OUT_OF_POSITION
  | VALIDATOR_JAMMED
  | DROP_CASSETTE_JAMMED
  | CHEATED
  | PAUSE
  | STACK_MOTOR_FAILURE
  | TRANSPORT_MOTOR_SPEED_FAILURE
  | TRANSPORT_MOTOR_FAILURE
  | ALIGNING_MOTOR_FAILURE
  | INITIAL_CASSETTE_STATUS_FAILURE
  | OPTIC_CANAL_FAILURE
  | MAGNETIC_CANAL_FAILURE
  | CAPACITANCE_CANAL_FAILURE
  | ESCROW_POSITION
  | BILL_STACKED
  | BILL_RETURNED

fun DeviceStatus_value :: "DeviceStatus \<Rightarrow> string" where
  "DeviceStatus_value POWER_UP = ''10''"
| "DeviceStatus_value POWER_UP_WITH_BILL_IN_VALIDATOR = ''11''"
| "DeviceStatus_value POWER_UP_WITH_BILL_IN_STACKER = ''12''"
| "DeviceStatus_value INITIALIZE = ''13''"
| "DeviceStatus_value IDLING = ''14''"
| "DeviceStatus_value ACCEPTING = ''15''"
| "DeviceStatus_value STACKING = ''17''"
| "DeviceStatus_value RETURNING = ''18''"
| "DeviceStatus_value UNIT_DISABLED = ''19''"
| "DeviceStatus_value HOLDING = ''1a''"
| "DeviceStatus_value DEVICE_BUSY = ''1b''"
| "DeviceStatus_value REJECTING_DUE_TO_INSERTION = ''1c60''"
| "DeviceStatus_value REJECTING_DUE_TO_MAGNETIC = ''1c61''"
| "DeviceStatus_value REJECTING_DUE_TO_REMAINED_BILL_IN_HEAD = ''1c62''"
| "DeviceStatus_value REJECTING_DUE_TO_MULTIPLYING = ''1c63''"
| "DeviceStatus_value REJECTING_DUE_TO_CONVEYING = ''1c64''"
| "DeviceStatus_value REJECTING_DUE_TO_IDENTIFICATION = ''1c65''"
| "DeviceStatus_value REJECTING_DUE_TO_VERIFICATION = ''1c66''"
| "DeviceStatus_value REJECTING_DUE_TO_OPTIC = ''1c67''"
| "DeviceStatus_value REJECTING_DUE_TO_INHIBIT = ''1c68''"
| "DeviceStatus_value REJECTING_DUE_TO_CAPACITY = ''1c69''"
| "DeviceStatus_value REJECTING_DUE_TO_OPERATION = ''1c6a''"
| "DeviceStatus_value REJECTING_DUE_TO_LENGTH = ''1c6c''"
| "DeviceStatus_value REJECTING_DUE_TO_UNRECOGNISED_BARCODE = ''1c92''"
| "DeviceStatus_value REJECTING_DUE_TO_UV = ''1c6d''"
| "DeviceStatus_value REJECTING_DUE_TO_INCORRECT_NUMBER_OF_CHARACTERS_IN_BARCODE = ''1c93''"
| "DeviceStatus_value REJECTING_DUE_TO_UNKNOWN_BARCODE_START_SEQUENCE = ''1c94''"
| "DeviceStatus_value REJECTING_DUE_TO_UNKNOWN_BARCODE_STOP_SEQUENCE = ''1c95''"
| "DeviceStatus_value DROP_CASSETTE_FULL = ''41''"
| "DeviceStatus_value DROP_CASSETTE_OUT_OF_POSITION = ''42''"
| "DeviceStatus_value VALIDATOR_JAMMED = ''43''"
| "DeviceStatus_value DROP_CASSETTE_JAMMED = ''44''"
| "DeviceStatus_value CHEATED = ''45''"
| "DeviceStatus_value PAUSE = ''46''"
| "DeviceStatus_value STACK_MOTOR_FAILURE = ''4750''"
| "DeviceStatus_value TRANSPORT_MOTOR_SPEED_FAILURE = ''4751''"
| "DeviceStatus_value TRANSPORT_MOTOR_FAILURE = ''4752''"
| "DeviceStatus_value ALIGNING_MOTOR_FAILURE = ''4753''"
| "DeviceStatus_value INITIAL_CASSETTE_STATUS_FAILURE = ''4754''"
| "DeviceStatus_value OPTIC_CANAL_FAILURE = ''4755''"
| "DeviceStatus_value MAGNETIC_CANAL_FAILURE = ''4756''"
| "DeviceStatus_value CAPACITANCE_CANAL_FAILURE = ''475f''"
| "DeviceStatus_value ESCROW_POSITION = ''80''"
| "DeviceStatus_value BILL_STACKED = ''81''"
| "DeviceStatus_value BILL_RETURNED = ''82''"

section \<open>Commands and events for the examples\<close>

text \<open>
  A command whose \<^verbatim>\<open>request\<close> gives back the bytes it is called with and whose
  \<^verbatim>\<open>response\<close> returns the payload as it is.
\<close>

definition plain :: command where
  "plain = \<lparr>request = Packet, response = Returns\<rparr>"

text \<open>A number of timer periods, each followed by the check phase of its loop turn.\<close>

fun ticks :: "nat \<Rightarrow> event list" where
  "ticks 0 = []"
| "ticks (Suc k) = Interval # CheckPhase # ticks k"

text \<open>The errors that the calls of \<^verbatim>\<open>task.done\<close> carry, and the writes, in a trace.\<close>

fun errors :: "action list \<Rightarrow> exception list" where
  "errors [] = []"
| "errors (Done n (Some e) d # as) = e # errors as"
| "errors (a # as) = errors as"

fun writes :: "action list \<Rightarrow> packet list" where
  "writes [] = []"
| "writes (SerialWrite p # as) = p # writes as"
| "writes (a # as) = writes as"

section \<open>Evaluation\<close>

lemma crc_bits_8:
  "crc_bits p 8 c =
     crc_bit p (crc_bit p (crc_bit p (crc_bit p (crc_bit p (crc_bit p (crc_bit p (crc_bit p c)))))))"
  by (simp add: eval_nat_numeral)

lemmas crc_ok_eval = crc_ok_def slice_def continuation_def getCRC16_def crc_byte_def
  crc_bit_def crc_bits_8 Let_def

lemmas engine_defs = run_def init_def timerMs_def log_def removeListener_def onStatus_def
  task_done_def pollTask_def onTick_def timeoutBody_def complete_def responseType_def
  handler_def parserData_def interval_def checkPhase_def execute_def onSerialPortOpen_def
  onSerialPortClose_def serial_open_def serial_close_def disconnect_def Let_def plain_def
  slice_def

lemma ticks_numeral: "ticks (numeral k) = Interval # CheckPhase # ticks (pred_numeral k)"
  by (simp add: numeral_eq_Suc)

lemma ack_frame_ok: "crc_ok 0x8408 [0x02, 0x03, 0x06, 0x00, 0xC2, 0x82]"
  by (simp add: crc_ok_eval)

lemma nak_frame_ok: "crc_ok 0x8408 [0x02, 0x03, 0x06, 0xFF, 0xBA, 0x8D]"
  by (simp add: crc_ok_eval)

lemma disabled_frame_ok: "crc_ok 0x8408 [0x02, 0x03, 0x06, 0x19, 0x82, 0x0F]"
  by (simp add: crc_ok_eval)

lemma unmapped_frame_ok: "crc_ok 0x8408 [0x02, 0x03, 0x06, 0x16, 0x75, 0xF7]"
  by (simp add: crc_ok_eval)

lemma zero_check_fails: "\<not> crc_ok 0x8408 [0x02, 0x03, 0x06, 0x19, 0x00, 0x00]"
  by (simp add: crc_ok_eval)

section \<open>Traces\<close>

lemma writes_append: "writes (xs @ ys) = writes xs @ writes ys"
  by (induction xs rule: writes.induct) simp_all

lemma task_done_trace:
  "\<exists>ys. trace (fst (task_done n t err d s)) = trace s @ Done n err d # ys \<and> writes ys = []"
  by (cases "callback t"; cases err; cases "response (case callback t of ExecuteCallback p c \<Rightarrow> c) d")
     (simp_all add: task_done_def log_def onStatus_def Let_def)

lemma task_done_busy: "busy (fst (task_done n t err d s)) = busy s"
  by (simp add: task_done_def log_def onStatus_def Let_def split: callback.splits option.splits outcome.splits)

lemma task_done_listeners:
  "dataListeners (fst (task_done n t err d s)) = dataListeners s"
  "tickListeners (fst (task_done n t err d s)) = tickListeners s"
  by (simp_all add: task_done_def log_def onStatus_def Let_def split: callback.splits option.splits outcome.splits)

lemma complete_trace:
  "\<exists>ys. trace (complete n t d s) = trace s @ Done n None (Some d) # ys \<and> writes ys = []"
  using task_done_trace [of n t None "Some d" "s\<lparr>busy := False\<rparr>"] by (simp add: complete_def)

lemma responseType_trace: "\<exists>zs. trace (fst (responseType n t resp u)) = trace u @ zs"
  by (cases "callback t")
     (auto simp: responseType_def complete_def task_done_def log_def onStatus_def Let_def
           split: outcome.splits)

text \<open>
  A response that arrives between the timer callback and its immediates, continued with
  an empty queue: the late immediate of the first task clears busy while the second task
  is in flight, a poll task is sent, the second task times out and clears busy again, and
  a second poll task is sent while the first one still awaits its response.
\<close>

lemma two_polls_in_flight:
  "map (data \<circ> snd) (dataListeners (run 0x8408
       ([Open, Execute plain [1] 100, Execute plain [2] 300,
         Interval, CheckPhase,
         Interval, ParserData [0x02, 0x03, 0x06, 0x19, 0x82, 0x0F], CheckPhase] @ ticks 5) init))
     = [Packet [2], Poll, Poll]"
  by (simp add: engine_defs disabled_frame_ok ticks_numeral)

section \<open>What holds of the parts\<close>

text \<open>A frame that ends in the checksum of its body verifies.\<close>

lemma crc_ok_round_trip: "crc_ok poly (b @ getCRC16 poly b)"
proof -
  have len: "length (getCRC16 poly b) = 2"
    by (simp add: getCRC16_def Let_def)
  have "slice (b @ getCRC16 poly b) (int (length b)) (int (length b) + 2) = getCRC16 poly b"
    using len by (simp add: slice_def Let_def)
  moreover have "slice (b @ getCRC16 poly b) 0 (int (length b)) = b"
    using len by (auto simp: slice_def Let_def)
  ultimately show ?thesis
    using len by (simp add: crc_ok_def Let_def add.commute)
qed

text \<open>While busy, \<^verbatim>\<open>onTick\<close> does nothing.\<close>

lemma onTick_busy: "busy s \<Longrightarrow> onTick s = s"
  by (simp add: onTick_def)

text \<open>
  The timeout of a task fires at the first run of its \<^verbatim>\<open>timeoutHandler\<close> body that brings
  the counter to the budget, and not before; it leaves the response handler registered.
\<close>

lemma timeoutBody_before:
  "timeoutCounter s n + timerMs < timeout t \<Longrightarrow>
     timeoutBody n t s = s\<lparr>timeoutCounter := (timeoutCounter s)(n := timeoutCounter s n + timerMs)\<rparr>"
  by (simp add: timeoutBody_def Let_def)

lemma timeoutBody_reached:
  "timeout t \<le> timeoutCounter s n + timerMs \<Longrightarrow>
     \<not> busy (timeoutBody n t s)
     \<and> tickListeners (timeoutBody n t s) = removeListener n (tickListeners s)
     \<and> dataListeners (timeoutBody n t s) = dataListeners s
     \<and> take (Suc (length (trace s))) (trace (timeoutBody n t s))
         = trace s @ [Done n (Some (Exception 10 ''Request timeout.'')) None]"
proof -
  assume a: "timeout t \<le> timeoutCounter s n + timerMs"
  let ?u = "s\<lparr>timeoutCounter := (timeoutCounter s)(n := timeoutCounter s n + timerMs),
              busy := False, tickListeners := removeListener n (tickListeners s)\<rparr>"
  have h: "timeoutBody n t s
      = fst (task_done n t (Some (Exception 10 ''Request timeout.'')) None ?u)"
    using a by (simp add: timeoutBody_def Let_def)
  obtain ys where "trace (timeoutBody n t s)
      = trace s @ Done n (Some (Exception 10 ''Request timeout.'')) None # ys"
    using task_done_trace [of n t "Some (Exception 10 ''Request timeout.'')" None ?u] h by auto
  then show ?thesis
    by (simp add: h task_done_busy task_done_listeners)
qed

text \<open>
  What the continuations of the response handler leave as it is: the queue, the
  listeners and the pending immediates; the only write they can add is the ACK request.
\<close>

lemma task_done_rest:
  "queue (fst (task_done n t err d s)) = queue s"
  "immediates (fst (task_done n t err d s)) = immediates s"
  by (simp_all add: task_done_def log_def onStatus_def Let_def
        split: callback.splits option.splits outcome.splits)

lemma resumeAck_bounds:
  "queue (resumeAck (AfterAck n t resp) u) = queue u
   \<and> dataListeners (resumeAck (AfterAck n t resp) u) = dataListeners u
   \<and> tickListeners (resumeAck (AfterAck n t resp) u) = tickListeners u
   \<and> immediates (resumeAck (AfterAck n t resp) u) = immediates u
   \<and> writes (trace (resumeAck (AfterAck n t resp) u)) = writes (trace u)
   \<and> \<not> busy (resumeAck (AfterAck n t resp) u)"
proof -
  obtain ys where "trace (complete n t (slice resp 3 (int (length resp) - 2)) u)
      = trace u @ Done n None (Some (slice resp 3 (int (length resp) - 2))) # ys" "writes ys = []"
    using complete_trace by blast
  then show ?thesis
    by (simp add: complete_def task_done_busy task_done_listeners task_done_rest writes_append)
qed

lemma responseType_bounds:
  "queue (fst (responseType n t resp u)) = queue u
   \<and> dataListeners (fst (responseType n t resp u)) = dataListeners u
   \<and> tickListeners (fst (responseType n t resp u)) = tickListeners u
   \<and> immediates (fst (responseType n t resp u)) = immediates u
   \<and> (snd (responseType n t resp u) = None
        \<or> snd (responseType n t resp u) = Some (Later (AfterAck n t resp)))
   \<and> writes (trace (fst (responseType n t resp u)))
       = writes (trace u) @ (if snd (responseType n t resp u) = None then [] else [Ack])
   \<and> (snd (responseType n t resp u) = None \<longrightarrow> \<not> busy (fst (responseType n t resp u)))
   \<and> busy (fst (responseType n t resp u)) \<le> busy u"
  by (cases "callback t")
     (auto simp: responseType_def complete_def task_done_def log_def onStatus_def Let_def
           writes_append split: outcome.splits)

lemma resume_bounds:
  "queue (fst (resume (AfterNak n t resp) s')) = queue s'
   \<and> dataListeners (fst (resume (AfterNak n t resp) s')) = dataListeners s'
   \<and> tickListeners (fst (resume (AfterNak n t resp) s')) = tickListeners s'
   \<and> immediates (fst (resume (AfterNak n t resp) s')) = immediates s'
   \<and> \<not> busy (fst (resume (AfterNak n t resp) s'))
   \<and> (snd (resume (AfterNak n t resp) s') = None
        \<or> snd (resume (AfterNak n t resp) s') = Some (AfterAck n t resp))
   \<and> writes (trace (fst (resume (AfterNak n t resp) s')))
       = writes (trace s') @ (if snd (resume (AfterNak n t resp) s') = None then [] else [Ack])"
proof -
  let ?E = "Exception 11 ''Wrong response data hash.''"
  let ?u = "s'\<lparr>busy := False\<rparr>"
  obtain s1 b where d: "task_done n t (Some ?E) None ?u = (s1, b)"
    by (cases "task_done n t (Some ?E) None ?u")
  have s1: "s1 = fst (task_done n t (Some ?E) None ?u)"
    using d by simp
  obtain ys where ys: "trace s1 = trace s' @ Done n (Some ?E) None # ys" "writes ys = []"
    using task_done_trace [of n t "Some ?E" None ?u] s1 by auto
  have k: "queue s1 = queue s'" "dataListeners s1 = dataListeners s'"
    "tickListeners s1 = tickListeners s'" "immediates s1 = immediates s'" "\<not> busy s1"
    "writes (trace s1) = writes (trace s')"
    using ys by (simp_all add: s1 task_done_rest task_done_listeners task_done_busy writes_append)
  show ?thesis
  proof (cases b)
    case True
    then show ?thesis using d k by simp
  next
    case False
    obtain s2 m where r: "responseType n t resp s1 = (s2, m)"
      by (cases "responseType n t resp s1")
    have m: "m = None \<or> m = Some (Later (AfterAck n t resp))"
      using responseType_bounds [of n t resp s1] r by simp
    have b2: "queue s2 = queue s1" "dataListeners s2 = dataListeners s1"
      "tickListeners s2 = tickListeners s1" "immediates s2 = immediates s1" "\<not> busy s2"
      "writes (trace s2) = writes (trace s1) @ (if m = None then [] else [Ack])"
      using responseType_bounds [of n t resp s1] r k by simp_all
    from m show ?thesis
    proof
      assume "m = None"
      then show ?thesis using d False r b2 k by simp
    next
      assume "m = Some (Later (AfterAck n t resp))"
      then show ?thesis using d False r b2 k by simp
    qed
  qed
qed

section \<open>Claims\<close>

text \<open>
  C1 (the completion sink is invoked at most once for every task; a frame that carries
  the NAK marker must not also complete the task successfully). The code does otherwise:
  a task is executed and sent, the frame \<open>02 03 06 FF BA 8D\<close> arrives, whose checksum
  verifies and whose payload is the NAK marker. The handler calls \<^verbatim>\<open>task.done\<close> with the
  exception 11, does not return, and calls \<^verbatim>\<open>task.done(null, data)\<close> as well.
\<close>

theorem nak_frame_completes_twice:
  "trace (run 0x8408
            [Open, Execute plain [0x02, 0x03, 0x06, 0x30, 0x41, 0xB3] 1000, Interval, CheckPhase,
             ParserData [0x02, 0x03, 0x06, 0xFF, 0xBA, 0x8D]] init)
     = [SerialWrite (Packet [0x02, 0x03, 0x06, 0x30, 0x41, 0xB3]),
        Done 0 (Some (Exception 11 ''Wrong request data hash.'')) None,
        Reject 0 (Exception 11 ''Wrong request data hash.''), Resolve 0 None,
        Done 0 None (Some [0xFF]), Resolve 0 (Some [0xFF])]"
  by (simp add: engine_defs nak_frame_ok)

text \<open>
  C2 (a verified frame whose payload is the ACK marker is a handshake only: busy is not
  cleared, the task is not completed, the true response is awaited). As stated this fails:
  after the frame \<open>02 03 06 00 C2 82\<close> the device is no longer busy, no handler is
  left on the parser, and the task has been completed with the payload \<open>00\<close>.
\<close>

theorem ack_frame_completes_task:
  "busy (run 0x8408 ([Open, Execute plain [0x02, 0x03, 0x06, 0x30, 0x41, 0xB3] 1000] @ ticks 1) init)
   \<and> \<not> busy (run 0x8408 ([Open, Execute plain [0x02, 0x03, 0x06, 0x30, 0x41, 0xB3] 1000] @ ticks 1
                 @ [ParserData [0x02, 0x03, 0x06, 0x00, 0xC2, 0x82]]) init)
   \<and> dataListeners (run 0x8408 ([Open, Execute plain [0x02, 0x03, 0x06, 0x30, 0x41, 0xB3] 1000] @ ticks 1
                 @ [ParserData [0x02, 0x03, 0x06, 0x00, 0xC2, 0x82]]) init) = []
   \<and> trace (run 0x8408 ([Open, Execute plain [0x02, 0x03, 0x06, 0x30, 0x41, 0xB3] 1000] @ ticks 1
                 @ [ParserData [0x02, 0x03, 0x06, 0x00, 0xC2, 0x82]]) init)
       = [SerialWrite (Packet [0x02, 0x03, 0x06, 0x30, 0x41, 0xB3]),
          Done 0 None (Some [0x00]), Resolve 0 (Some [0x00])]"
  by (simp add: engine_defs ack_frame_ok ticks_numeral)

text \<open>
  C2, amended: for a frame whose checksum verifies and whose payload is the single byte
  \<open>00\<close>, the handler ends without any pending continuation, has removed the timeout
  listener and the response listener of its task, writes nothing to the serial port,
  clears busy, and calls \<^verbatim>\<open>task.done(null, data)\<close> with that payload.
\<close>

theorem handler_ack_marker:
  assumes "crc_ok poly resp" and "slice resp 3 (int (length resp) - 2) = [0x00]"
  shows "snd (handler poly n t resp s) = None
    \<and> busy (fst (handler poly n t resp s)) = False
    \<and> dataListeners (fst (handler poly n t resp s)) = removeListener n (dataListeners s)
    \<and> tickListeners (fst (handler poly n t resp s)) = removeListener n (tickListeners s)
    \<and> writes (trace (fst (handler poly n t resp s))) = writes (trace s)
    \<and> take (Suc (length (trace s))) (trace (fst (handler poly n t resp s)))
        = trace s @ [Done n None (Some [0x00])]"
proof -
  let ?s1 = "s\<lparr>tickListeners := removeListener n (tickListeners s),
               dataListeners := removeListener n (dataListeners s)\<rparr>"
  have h: "handler poly n t resp s = (complete n t [0x00] ?s1, None)"
    using assms by (simp add: handler_def responseType_def Let_def)
  obtain ys where ys: "trace (complete n t [0x00] ?s1) = trace s @ Done n None (Some [0x00]) # ys"
      "writes ys = []"
    using complete_trace [of n t "[0x00]" ?s1] by auto
  show ?thesis
    using ys by (simp add: h complete_def task_done_busy task_done_listeners writes_append)
qed

text \<open>
  C2, amended, at the frame \<open>02 03 06 00 C2 82\<close>, of which both hypotheses hold.
\<close>

theorem handler_ack_marker_witness:
  "crc_ok 0x8408 [0x02, 0x03, 0x06, 0x00, 0xC2, 0x82]
   \<and> slice [0x02, 0x03, 0x06, 0x00, 0xC2, 0x82] 3 (int (length [0x02, 0x03, 0x06, 0x00, 0xC2, 0x82 :: byte]) - 2) = [0x00]
   \<and> snd (handler 0x8408 0 pollTask [0x02, 0x03, 0x06, 0x00, 0xC2, 0x82] (init\<lparr>busy := True\<rparr>)) = None
   \<and> busy (fst (handler 0x8408 0 pollTask [0x02, 0x03, 0x06, 0x00, 0xC2, 0x82] (init\<lparr>busy := True\<rparr>))) = False
   \<and> writes (trace (fst (handler 0x8408 0 pollTask [0x02, 0x03, 0x06, 0x00, 0xC2, 0x82] (init\<lparr>busy := True\<rparr>)))) = []"
proof -
  have a: "crc_ok 0x8408 [0x02, 0x03, 0x06, 0x00, 0xC2, 0x82]"
    by (rule ack_frame_ok)
  have b: "slice [0x02, 0x03, 0x06, 0x00, 0xC2, 0x82] 3
             (int (length [0x02, 0x03, 0x06, 0x00, 0xC2, 0x82 :: byte]) - 2) = [0x00]"
    by (simp add: slice_def)
  show ?thesis
    using a b handler_ack_marker [OF a b, of 0 pollTask "init\<lparr>busy := True\<rparr>"]
    by (simp add: init_def)
qed

text \<open>
  C3 (at the timeout both listeners are removed, busy is cleared and the task fails with
  a timeout error; a frame that arrives later cannot invoke the sink). The code removes
  the timeout listener only: a task with a budget of 100 ms times out at the first tick
  after its dispatch, its response handler is still registered on the parser, and the
  frame \<open>02 03 06 19 82 0F\<close> that arrives afterwards completes the task a second time.
\<close>

theorem late_frame_after_timeout:
  "map fst (dataListeners (run 0x8408
       ([Open, Execute plain [0x02, 0x03, 0x06, 0x30, 0x41, 0xB3] 100] @ ticks 2) init)) = [0]
   \<and> trace (run 0x8408
       ([Open, Execute plain [0x02, 0x03, 0x06, 0x30, 0x41, 0xB3] 100] @ ticks 2) init)
     = [SerialWrite (Packet [0x02, 0x03, 0x06, 0x30, 0x41, 0xB3]),
        Done 0 (Some (Exception 10 ''Request timeout.'')) None,
        Reject 0 (Exception 10 ''Request timeout.''), Resolve 0 None]
   \<and> trace (run 0x8408
       ([Open, Execute plain [0x02, 0x03, 0x06, 0x30, 0x41, 0xB3] 100] @ ticks 2
          @ [ParserData [0x02, 0x03, 0x06, 0x19, 0x82, 0x0F]]) init)
     = [SerialWrite (Packet [0x02, 0x03, 0x06, 0x30, 0x41, 0xB3]),
        Done 0 (Some (Exception 10 ''Request timeout.'')) None,
        Reject 0 (Exception 10 ''Request timeout.''), Resolve 0 None,
        SerialWrite Ack, Done 0 None (Some [0x19]), Resolve 0 (Some [0x19])]"
  by (simp add: engine_defs disabled_frame_ok ticks_numeral)

text \<open>
  C4 (verification compares the recomputed checksum byte for byte; flipping any single
  bit of the frame makes it fail). The code compares the two checksums as strings: with
  the polynomial 0x8408 the checksum of \<open>02 03 06 19\<close> is \<open>82 0F\<close>, and the frame
  whose checksum bytes are \<open>83 0F\<close> (one bit flipped) is accepted, since \<open>82\<close> and
  \<open>83\<close> both decode to U+FFFD.
\<close>

theorem flipped_checksum_accepted:
  "getCRC16 0x8408 [0x02, 0x03, 0x06, 0x19] = [0x82, 0x0F]
   \<and> crc_ok 0x8408 [0x02, 0x03, 0x06, 0x19, 0x83, 0x0F]"
  by (simp add: crc_ok_eval)

text \<open>
  C5 (while busy no task is taken from the queue, so at most one frame is outstanding,
  and tasks complete in the order of their enqueueing). The code loses this when a
  response arrives between the timer callback and the immediates it has queued. Three
  tasks with budgets 100, 1000 and 100 ms are enqueued. The first is sent; at the next
  timer period its response arrives before the check phase, so the task completes, and
  in the check phase \<^verbatim>\<open>onTick\<close> sends the second task and the immediate of the first
  task's \<^verbatim>\<open>timeoutHandler\<close> then reaches the budget and clears busy. At the next tick
  the third task is sent while the second is unanswered (both handlers are registered),
  and one tick later the third task times out before the second has completed.
\<close>

theorem stale_timeout_breaks_single_flight:
  "trace (run 0x8408
       [Open, Execute plain [1] 100, Execute plain [2] 1000, Execute plain [3] 100,
        Interval, CheckPhase,
        Interval, ParserData [0x02, 0x03, 0x06, 0x19, 0x82, 0x0F], CheckPhase,
        Interval, CheckPhase,
        Interval, CheckPhase] init)
     = [SerialWrite (Packet [1]),
        SerialWrite Ack, Done 0 None (Some [0x19]), Resolve 0 (Some [0x19]),
        SerialWrite (Packet [2]),
        Done 0 (Some (Exception 10 ''Request timeout.'')) None,
        Reject 0 (Exception 10 ''Request timeout.''), Resolve 0 None,
        SerialWrite (Packet [3]),
        Done 2 (Some (Exception 10 ''Request timeout.'')) None,
        Reject 2 (Exception 10 ''Request timeout.''), Resolve 2 None]
   \<and> map fst (dataListeners (run 0x8408
       [Open, Execute plain [1] 100, Execute plain [2] 1000, Execute plain [3] 100,
        Interval, CheckPhase,
        Interval, ParserData [0x02, 0x03, 0x06, 0x19, 0x82, 0x0F], CheckPhase,
        Interval, CheckPhase] init)) = [1, 2]"
  by (simp add: engine_defs disabled_frame_ok)

text \<open>
  C6 (at a tick with the engine idle and the queue empty, exactly one poll task is
  dispatched that tick). As stated this fails: the tick only puts the poll task into the
  queue, nothing is written and no handler is registered.
\<close>

theorem idle_tick_writes_nothing:
  "\<not> busy (run 0x8408 [Open] init) \<and> queue (run 0x8408 [Open] init) = []
   \<and> trace (run 0x8408 [Open, Interval, CheckPhase] init) = []
   \<and> \<not> busy (run 0x8408 [Open, Interval, CheckPhase] init)
   \<and> dataListeners (run 0x8408 [Open, Interval, CheckPhase] init) = []
   \<and> queue (run 0x8408 [Open, Interval, CheckPhase] init) = [pollTask]"
  by (simp add: engine_defs)

text \<open>
  C6, amended: when \<^verbatim>\<open>onTick\<close> runs with the engine idle and the queue empty, it
  appends exactly one poll task with the timeout 1000 to the queue and does nothing else;
  the next run of \<^verbatim>\<open>onTick\<close> takes it from the queue, sets busy, registers its two
  listeners and writes the poll request.
\<close>

theorem onTick_idle_empty_queue:
  assumes "\<not> busy s" and "queue s = []"
  shows "onTick s = s\<lparr>queue := [pollTask]\<rparr>
    \<and> data pollTask = Poll \<and> timeout pollTask = 1000 \<and> callback pollTask = PollCallback
    \<and> busy (onTick (onTick s)) \<and> queue (onTick (onTick s)) = []
    \<and> trace (onTick (onTick s)) = trace s @ [SerialWrite Poll]
    \<and> dataListeners (onTick (onTick s)) = dataListeners s @ [(dispatched s, pollTask)]
    \<and> tickListeners (onTick (onTick s)) = tickListeners s @ [(dispatched s, pollTask)]"
  using assms by (simp add: onTick_def pollTask_def log_def Let_def)

text \<open>
  C6, amended, at the initial device, which is idle and has an empty queue.
\<close>

theorem onTick_idle_empty_queue_witness:
  "\<not> busy init \<and> queue init = [] \<and> onTick init = init\<lparr>queue := [pollTask]\<rparr>
   \<and> trace (onTick (onTick init)) = [SerialWrite Poll]"
proof -
  have a: "\<not> busy init" by (simp add: init_def)
  have b: "queue init = []" by (simp add: init_def)
  have c: "trace init = []" by (simp add: init_def)
  show ?thesis
    using a b onTick_idle_empty_queue [OF a b, unfolded c append_Nil] by blast
qed

text \<open>
  C7 (a checksum failure and a NAK marker give distinguishable errors, ChecksumMismatch
  and PeerRejected). As stated this fails: in both runs the only error passed to the sink
  has the code 11.
\<close>

theorem hash_errors_share_code:
  "map code (errors (trace (run 0x8408
       ([Open, Execute plain [0x02, 0x03, 0x06, 0x30, 0x41, 0xB3] 1000] @ ticks 1
          @ [ParserData [0x02, 0x03, 0x06, 0x19, 0x00, 0x00]]) init))) = [11]
   \<and> map code (errors (trace (run 0x8408
       ([Open, Execute plain [0x02, 0x03, 0x06, 0x30, 0x41, 0xB3] 1000] @ ticks 1
          @ [ParserData [0x02, 0x03, 0x06, 0xFF, 0xBA, 0x8D]]) init))) = [11]"
  by (simp add: engine_defs ticks_numeral zero_check_fails nak_frame_ok)

text \<open>
  C7, amended: on a frame whose checksum does not verify the handler writes the NAK
  request and, when resumed, first calls \<^verbatim>\<open>task.done\<close> with the exception 11 "Wrong
  response data hash."; there is no retry: in what follows the handler puts nothing into
  the queue, registers no listener and queues no immediate, leaves busy cleared, and
  writes at most the ACK request. On a verified frame whose payload is the NAK marker it
  writes nothing, first calls \<^verbatim>\<open>task.done\<close> with the exception 11 "Wrong request data
  hash.", and likewise leaves the queue as it is and busy cleared. The two exceptions
  have the same code and differ in their message.
\<close>

theorem hash_errors:
  "(\<not> crc_ok poly resp \<longrightarrow>
      handler poly n t resp s
        = (s\<lparr>tickListeners := removeListener n (tickListeners s),
              dataListeners := removeListener n (dataListeners s),
              trace := trace s @ [SerialWrite Nak]\<rparr>, Some (AfterNak n t resp)))
   \<and> take (Suc (length (trace s'))) (trace (fst (resume (AfterNak n t resp) s')))
       = trace s' @ [Done n (Some (Exception 11 ''Wrong response data hash.'')) None]
   \<and> queue (fst (resume (AfterNak n t resp) s')) = queue s'
   \<and> dataListeners (fst (resume (AfterNak n t resp) s')) = dataListeners s'
   \<and> tickListeners (fst (resume (AfterNak n t resp) s')) = tickListeners s'
   \<and> immediates (fst (resume (AfterNak n t resp) s')) = immediates s'
   \<and> \<not> busy (fst (resume (AfterNak n t resp) s'))
   \<and> (snd (resume (AfterNak n t resp) s') = None
        \<or> snd (resume (AfterNak n t resp) s') = Some (AfterAck n t resp))
   \<and> writes (trace (fst (resume (AfterNak n t resp) s')))
       = writes (trace s') @ (if snd (resume (AfterNak n t resp) s') = None then [] else [Ack])
   \<and> queue (resumeAck (AfterAck n t resp) u) = queue u
   \<and> dataListeners (resumeAck (AfterAck n t resp) u) = dataListeners u
   \<and> tickListeners (resumeAck (AfterAck n t resp) u) = tickListeners u
   \<and> immediates (resumeAck (AfterAck n t resp) u) = immediates u
   \<and> writes (trace (resumeAck (AfterAck n t resp) u)) = writes (trace u)
   \<and> \<not> busy (resumeAck (AfterAck n t resp) u)
   \<and> (crc_ok poly resp \<and> slice resp 3 (int (length resp) - 2) = [0xFF] \<longrightarrow>
      snd (handler poly n t resp s) = None
      \<and> writes (trace (fst (handler poly n t resp s))) = writes (trace s)
      \<and> take (Suc (length (trace s))) (trace (fst (handler poly n t resp s)))
          = trace s @ [Done n (Some (Exception 11 ''Wrong request data hash.'')) None]
      \<and> queue (fst (handler poly n t resp s)) = queue s
      \<and> dataListeners (fst (handler poly n t resp s)) = removeListener n (dataListeners s)
      \<and> tickListeners (fst (handler poly n t resp s)) = removeListener n (tickListeners s)
      \<and> immediates (fst (handler poly n t resp s)) = immediates s
      \<and> \<not> busy (fst (handler poly n t resp s)))
   \<and> code (Exception 11 ''Wrong response data hash.'') = code (Exception 11 ''Wrong request data hash.'')
   \<and> message (Exception 11 ''Wrong response data hash.'') \<noteq> message (Exception 11 ''Wrong request data hash.'')"
proof -
  let ?E = "Exception 11 ''Wrong response data hash.''"
  have nak_sent: "handler poly n t resp s
        = (s\<lparr>tickListeners := removeListener n (tickListeners s),
              dataListeners := removeListener n (dataListeners s),
              trace := trace s @ [SerialWrite Nak]\<rparr>, Some (AfterNak n t resp))"
    if "\<not> crc_ok poly resp"
    using that by (simp add: handler_def log_def Let_def)
  have resumed: "take (Suc (length (trace s'))) (trace (fst (resume (AfterNak n t resp) s')))
          = trace s' @ [Done n (Some ?E) None]"
  proof -
    obtain s1 b where d: "task_done n t (Some ?E) None (s'\<lparr>busy := False\<rparr>) = (s1, b)"
      by (cases "task_done n t (Some ?E) None (s'\<lparr>busy := False\<rparr>)")
    obtain ys where ys: "trace s1 = trace s' @ Done n (Some ?E) None # ys"
      using task_done_trace [of n t "Some ?E" None "s'\<lparr>busy := False\<rparr>"] d by auto
    obtain zs where zs: "trace (fst (responseType n t resp s1)) = trace s1 @ zs"
      using responseType_trace by blast
    have "\<exists>ws. trace (fst (resume (AfterNak n t resp) s')) = trace s' @ Done n (Some ?E) None # ws"
    proof (cases b)
      case True
      then show ?thesis using d ys by simp
    next
      case False
      obtain s2 m where r: "responseType n t resp s1 = (s2, m)"
        by (cases "responseType n t resp s1")
      have "fst (resume (AfterNak n t resp) s') = s2"
        using d False r by (simp split: option.splits microtask.splits)
      then show ?thesis using zs ys r by simp
    qed
    then show ?thesis by auto
  qed
  have nak_received: "snd (handler poly n t resp s) = None
      \<and> writes (trace (fst (handler poly n t resp s))) = writes (trace s)
      \<and> take (Suc (length (trace s))) (trace (fst (handler poly n t resp s)))
          = trace s @ [Done n (Some (Exception 11 ''Wrong request data hash.'')) None]
      \<and> queue (fst (handler poly n t resp s)) = queue s
      \<and> dataListeners (fst (handler poly n t resp s)) = removeListener n (dataListeners s)
      \<and> tickListeners (fst (handler poly n t resp s)) = removeListener n (tickListeners s)
      \<and> immediates (fst (handler poly n t resp s)) = immediates s
      \<and> \<not> busy (fst (handler poly n t resp s))"
    if "crc_ok poly resp" and "slice resp 3 (int (length resp) - 2) = [0xFF]"
    using that
    by (cases "callback t")
       (auto simp: handler_def responseType_def complete_def task_done_def log_def onStatus_def
             Let_def writes_append split: outcome.splits)
  show ?thesis
    using nak_sent resumed nak_received resume_bounds [of n t resp s']
      resumeAck_bounds [of n t resp u]
    by simp
qed

text \<open>
  C7, amended, at the frames \<open>02 03 06 19 00 00\<close> (wrong checksum) and
  \<open>02 03 06 FF BA 8D\<close> (NAK marker).
\<close>

theorem hash_errors_witness:
  "\<not> crc_ok 0x8408 [0x02, 0x03, 0x06, 0x19, 0x00, 0x00]
   \<and> trace (fst (handler 0x8408 0 pollTask [0x02, 0x03, 0x06, 0x19, 0x00, 0x00] init)) = [SerialWrite Nak]
   \<and> crc_ok 0x8408 [0x02, 0x03, 0x06, 0xFF, 0xBA, 0x8D]
   \<and> slice [0x02, 0x03, 0x06, 0xFF, 0xBA, 0x8D] 3 (int (length [0x02, 0x03, 0x06, 0xFF, 0xBA, 0x8D :: byte]) - 2) = [0xFF]
   \<and> take (Suc 0) (trace (fst (handler 0x8408 0 pollTask [0x02, 0x03, 0x06, 0xFF, 0xBA, 0x8D] init)))
       = [Done 0 (Some (Exception 11 ''Wrong request data hash.'')) None]"
proof -
  have a: "\<not> crc_ok 0x8408 [0x02, 0x03, 0x06, 0x19, 0x00, 0x00]"
    by (rule zero_check_fails)
  have b: "crc_ok 0x8408 [0x02, 0x03, 0x06, 0xFF, 0xBA, 0x8D]"
    by (rule nak_frame_ok)
  have c: "slice [0x02, 0x03, 0x06, 0xFF, 0xBA, 0x8D] 3
             (int (length [0x02, 0x03, 0x06, 0xFF, 0xBA, 0x8D :: byte]) - 2) = [0xFF]"
    by (simp add: slice_def)
  have d: "trace init = []"
    by (simp add: init_def)
  have e: "handler 0x8408 0 pollTask [0x02, 0x03, 0x06, 0x19, 0x00, 0x00] init
        = (init\<lparr>tickListeners := removeListener 0 (tickListeners init),
              dataListeners := removeListener 0 (dataListeners init),
              trace := trace init @ [SerialWrite Nak]\<rparr>, Some (AfterNak 0 pollTask [0x02, 0x03, 0x06, 0x19, 0x00, 0x00]))"
    using a hash_errors [where poly = "0x8408" and resp = "[0x02, 0x03, 0x06, 0x19, 0x00, 0x00]"
        and n = 0 and t = pollTask and s = init and s' = init and u = init]
    by blast
  have f: "take (Suc (length (trace init)))
             (trace (fst (handler 0x8408 0 pollTask [0x02, 0x03, 0x06, 0xFF, 0xBA, 0x8D] init)))
          = trace init @ [Done 0 (Some (Exception 11 ''Wrong request data hash.'')) None]"
    using b c hash_errors [where poly = "0x8408" and resp = "[0x02, 0x03, 0x06, 0xFF, 0xBA, 0x8D]"
        and n = 0 and t = pollTask and s = init and s' = init and u = init]
    by blast
  show ?thesis
    using a b c d e f by simp
qed

text \<open>
  C8 (on disconnect every in-flight or queued task is failed with a connection-closed
  error). As stated this fails: with one task in flight and one in the queue, disconnect
  leaves the device busy and the queue as it is, and no sink is called, neither then nor
  in the timer periods that follow.
\<close>

theorem disconnect_fails_no_task:
  "busy (run 0x8408 ([Open, Execute plain [1] 1000, Execute plain [2] 1000] @ ticks 1 @ [Disconnect]) init)
   \<and> queue (run 0x8408 ([Open, Execute plain [1] 1000, Execute plain [2] 1000] @ ticks 1 @ [Disconnect]) init)
       = [\<lparr>data = Packet [2], callback = ExecuteCallback 1 plain, timeout = 1000\<rparr>]
   \<and> trace (run 0x8408 ([Open, Execute plain [1] 1000, Execute plain [2] 1000] @ ticks 1 @ [Disconnect]) init)
       = [SerialWrite (Packet [1])]
   \<and> trace (run 0x8408 ([Open, Execute plain [1] 1000, Execute plain [2] 1000] @ ticks 1 @ [Disconnect]
                 @ ticks 20) init)
       = [SerialWrite (Packet [1])]"
  by (simp add: engine_defs ticks_numeral)

text \<open>
  C8, amended: on disconnect of an open device the port is closed and the operating
  timer is cleared, so that a timer period no longer queues anything; the queue, the busy
  flag, the listeners and the trace are unchanged.
\<close>

theorem disconnect_stops_timer:
  assumes "isOpen s"
  shows "disconnect None s = (s\<lparr>isOpen := False, timerInterval := False\<rparr>, None)
    \<and> interval (fst (disconnect None s)) = fst (disconnect None s)
    \<and> queue (fst (disconnect None s)) = queue s
    \<and> busy (fst (disconnect None s)) = busy s
    \<and> dataListeners (fst (disconnect None s)) = dataListeners s
    \<and> tickListeners (fst (disconnect None s)) = tickListeners s
    \<and> trace (fst (disconnect None s)) = trace s"
  using assms
  by (simp add: disconnect_def serial_close_def onSerialPortClose_def interval_def)

text \<open>
  C8, amended, at the device after \<^verbatim>\<open>open\<close>.
\<close>

theorem disconnect_stops_timer_witness:
  "isOpen (fst (serial_open None init))
   \<and> timerInterval (fst (serial_open None init))
   \<and> \<not> timerInterval (fst (disconnect None (fst (serial_open None init))))
   \<and> \<not> isOpen (fst (disconnect None (fst (serial_open None init))))"
proof -
  have a: "isOpen (fst (serial_open None init))"
    by (simp add: serial_open_def init_def onSerialPortOpen_def)
  have b: "timerInterval (fst (serial_open None init))"
    by (simp add: serial_open_def init_def onSerialPortOpen_def)
  show ?thesis
    using a b disconnect_stops_timer [OF a] by simp
qed

text \<open>
  C9 (a status absent from the table yields an UnrecognizedStatus error). As stated this
  fails: no member of \<^verbatim>\<open>DeviceStatus\<close> has the value "16", and a poll answered with the
  status byte \<open>16\<close> ends in a call of \<^verbatim>\<open>onStatus\<close> that changes nothing and raises
  nothing.
\<close>

theorem unmapped_status_ignored:
  "''16'' \<notin> range DeviceStatus_value
   \<and> onStatus (Some [0x16]) init = init
   \<and> trace (run 0x8408 (Open # ticks 2 @ [ParserData [0x02, 0x03, 0x06, 0x16, 0x75, 0xF7]]) init)
       = [SerialWrite Poll, SerialWrite Ack, Done 0 None (Some [0x16]), StatusCall (Some [0x16])]"
proof -
  have "''16'' \<notin> range DeviceStatus_value"
  proof
    assume "''16'' \<in> range DeviceStatus_value"
    then obtain st where "''16'' = DeviceStatus_value st"
      by (rule rangeE)
    then show False
      by (cases st) simp_all
  qed
  then show ?thesis
    by (simp add: engine_defs ticks_numeral unmapped_frame_ok)
qed

text \<open>
  C9, amended: in \<^verbatim>\<open>DeviceStatus\<close> the value "19" belongs to \<open>UNIT_DISABLED\<close> and to
  no other member, the value "1c60" to \<open>REJECTING_DUE_TO_INSERTION\<close> and to no other
  member; \<^verbatim>\<open>onStatus\<close> leaves the device as it is for every status.
\<close>

theorem DeviceStatus_lookup:
  "(DeviceStatus_value st = ''19'') = (st = UNIT_DISABLED)
   \<and> (DeviceStatus_value st = ''1c60'') = (st = REJECTING_DUE_TO_INSERTION)
   \<and> onStatus status s = s"
  by (cases st) (simp_all add: onStatus_def)

text \<open>
  C10: the task that \<^verbatim>\<open>onTick\<close> puts into an empty queue is the poll task; its sink,
  called with an error, throws that error and does not call \<^verbatim>\<open>onStatus\<close>; called
  without an error it calls \<^verbatim>\<open>onStatus\<close> with the data. When no response arrives the
  poll task times out at the tenth tick after its dispatch and the timeout exception is
  thrown.
\<close>

theorem poll_sink_rethrows:
  "queue (onTick (s\<lparr>busy := False, queue := []\<rparr>)) = [pollTask]
   \<and> task_done n pollTask (Some e) d u
       = (u\<lparr>trace := trace u @ [Done n (Some e) d, Throw e]\<rparr>, True)
   \<and> task_done n pollTask None d u
       = (u\<lparr>trace := trace u @ [Done n None d, StatusCall d]\<rparr>, False)
   \<and> trace (run 0x8408 (Open # ticks 12) init)
       = [SerialWrite Poll, Done 0 (Some (Exception 10 ''Request timeout.'')) None,
          Throw (Exception 10 ''Request timeout.'')]"
  by (simp add: engine_defs ticks_numeral)

end
